theory Spec2Isabelle
  imports Complex_Main "HOL-Library.Sublist"
begin

section \<open>Python values, strings and exceptions\<close>

text \<open>
  The value that \<open>response.json()\<close> returns: a decoded JSON document as Python holds it.
  A dict is an association list whose keys are pairwise distinct, looked up with
  \<open>map_of\<close>. A float keeps only what the code can observe of it here, its truth value:
  the number zero is the one falsy float.
\<close>

datatype pyfloat = Finite rat | Infinite | NaN

datatype pyval =
    PNone
  | PBool bool
  | PInt int
  | PFloat pyfloat
  | PStr string
  | PList "pyval list"
  | PDict "(string \<times> pyval) list"

text \<open>
  Exceptions, all of them instances of Python's \<open>Exception\<close>: what an HTTP client, a JSON
  decoder, an attribute access or a validation can raise. Each carries the text that
  \<open>str(e)\<close> gives. \<open>TimeoutError\<close> stands for the instances of \<open>asyncio.TimeoutError\<close>.
  \<open>TimeoutException\<close> stands for those of \<open>httpx.TimeoutException\<close>, which the
  \<open>httpx.AsyncClient\<close> of the dependencies raises when a request exceeds the client's
  timeout; that class derives from \<open>Exception\<close> through \<open>httpx.TransportError\<close> and not
  from \<open>asyncio.TimeoutError\<close>.
\<close>

datatype exn =
    TimeoutError string
  | TimeoutException string
  | AttributeError string
  | TypeError string
  | ValueError string
  | ValidationError string
  | OtherException string

fun exn_str :: "exn \<Rightarrow> string" where
  "exn_str (TimeoutError m) = m"
| "exn_str (TimeoutException m) = m"
| "exn_str (AttributeError m) = m"
| "exn_str (TypeError m) = m"
| "exn_str (ValueError m) = m"
| "exn_str (ValidationError m) = m"
| "exn_str (OtherException m) = m"

text \<open>\<open>str.isspace\<close> on one character, for the code points below 256.\<close>

definition py_isspace :: "char \<Rightarrow> bool" where
  "py_isspace c =
     (let n = (of_char c :: nat)
      in (9 \<le> n \<and> n \<le> 13) \<or> (28 \<le> n \<and> n \<le> 32) \<or> n = 133 \<or> n = 160)"

text \<open>\<open>str.strip()\<close>: whitespace removed at both ends.\<close>

definition strip :: "string \<Rightarrow> string" where
  "strip s = rev (dropWhile py_isspace (rev (dropWhile py_isspace s)))"

text \<open>\<open>str(n)\<close> for an integer: decimal digits, a minus sign when negative.\<close>

definition digit_char :: "nat \<Rightarrow> char" where
  "digit_char d = ''0123456789'' ! (d mod 10)"

fun nat_digits :: "nat \<Rightarrow> string" where
  "nat_digits n =
     (if n < 10 then [digit_char n] else nat_digits (n div 10) @ [digit_char (n mod 10)])"

declare nat_digits.simps [simp del]

definition py_str_int :: "int \<Rightarrow> string" where
  "py_str_int i = (if i < 0 then ''-'' @ nat_digits (nat (- i)) else nat_digits (nat i))"

text \<open>
  \<open>str(v)\<close>, as an f-string applies it. A string is itself; \<open>None\<close>, booleans and integers
  are written out; for floats and containers the interpreter's rendering is the
  parameter \<open>repr\<close>.
\<close>

definition py_str :: "(pyval \<Rightarrow> string) \<Rightarrow> pyval \<Rightarrow> string" where
  "py_str repr v =
     (case v of
        PStr s \<Rightarrow> s
      | PNone \<Rightarrow> ''None''
      | PBool b \<Rightarrow> (if b then ''True'' else ''False'')
      | PInt i \<Rightarrow> py_str_int i
      | _ \<Rightarrow> repr v)"

text \<open>The truth value of a value, as \<open>if not web_results\<close> tests it.\<close>

definition truthy :: "pyval \<Rightarrow> bool" where
  "truthy v =
     (case v of
        PNone \<Rightarrow> False
      | PBool b \<Rightarrow> b
      | PInt i \<Rightarrow> i \<noteq> 0
      | PFloat f \<Rightarrow> f \<noteq> Finite 0
      | PStr s \<Rightarrow> s \<noteq> []
      | PList xs \<Rightarrow> xs \<noteq> []
      | PDict kvs \<Rightarrow> kvs \<noteq> [])"

definition type_name :: "pyval \<Rightarrow> string" where
  "type_name v =
     (case v of
        PNone \<Rightarrow> ''NoneType''
      | PBool _ \<Rightarrow> ''bool''
      | PInt _ \<Rightarrow> ''int''
      | PFloat _ \<Rightarrow> ''float''
      | PStr _ \<Rightarrow> ''str''
      | PList _ \<Rightarrow> ''list''
      | PDict _ \<Rightarrow> ''dict'')"

abbreviation quote :: string where
  "quote \<equiv> [CHR 0x27]"

abbreviation newline :: string where
  "newline \<equiv> [CHR 0x0A]"

text \<open>\<open>v.get(key, default)\<close>: only a dict has the method.\<close>

definition py_get :: "pyval \<Rightarrow> string \<Rightarrow> pyval \<Rightarrow> exn + pyval" where
  "py_get v key dflt =
     (case v of
        PDict kvs \<Rightarrow> Inr (case map_of kvs key of None \<Rightarrow> dflt | Some x \<Rightarrow> x)
      | _ \<Rightarrow> Inl (AttributeError
                 (quote @ type_name v @ quote @ '' object has no attribute '' @ quote @ ''get'' @ quote)))"

text \<open>
  The elements a \<open>for\<close> loop draws from a value: the items of a list, the characters of
  a string, the keys of a dict; anything else is not iterable.
\<close>

definition py_iter :: "pyval \<Rightarrow> exn + pyval list" where
  "py_iter v =
     (case v of
        PList xs \<Rightarrow> Inr xs
      | PStr s \<Rightarrow> Inr (map (\<lambda>c. PStr [c]) s)
      | PDict kvs \<Rightarrow> Inr (map (\<lambda>kv. PStr (fst kv)) kvs)
      | _ \<Rightarrow> Inl (TypeError (quote @ type_name v @ quote @ '' object is not iterable'')))"

section \<open>The search tool\<close>

text \<open>
  What \<open>session.get\<close> is called with, and what it gives back. A response has its status
  code, its text and the outcome of \<open>response.json()\<close>, which raises on a body that is
  not JSON. The session is its behaviour: for a request, a response or a raised
  exception.
\<close>

record request =
  url :: string
  headers :: "(string \<times> string) list"
  params :: "(string \<times> pyval) list"

record response =
  status_code :: int
  response_text :: string
  json :: "exn + pyval"

type_synonym session = "request \<Rightarrow> exn + response"

text \<open>
  The effects of the tool that the claims speak of: the GETs issued so far, in order, and
  how often the module's shared \<open>search_rate_limiter\<close> has been entered.
\<close>

record world =
  requests :: "request list"
  limiter_entered :: nat

text \<open>
  The loop over \<open>enumerate(web_results, 1)\<close>, appending one entry to \<open>result_text\<close> per
  result; a result that is no dict raises at its first \<open>get\<close>.
\<close>

fun format_results :: "(pyval \<Rightarrow> string) \<Rightarrow> nat \<Rightarrow> pyval list \<Rightarrow> string \<Rightarrow> exn + string" where
  "format_results repr i [] result_text = Inr result_text"
| "format_results repr i (result # rest) result_text =
     (case py_get result ''title'' (PStr ''No title'') of
        Inl e \<Rightarrow> Inl e
      | Inr title \<Rightarrow>
     (case py_get result ''url'' (PStr ''No URL'') of
        Inl e \<Rightarrow> Inl e
      | Inr url' \<Rightarrow>
     (case py_get result ''description'' (PStr ''No description'') of
        Inl e \<Rightarrow> Inl e
      | Inr description \<Rightarrow>
          format_results repr (Suc i) rest
            (result_text
              @ nat_digits i @ ''. **'' @ py_str repr title @ ''**'' @ newline
              @ ''   URL: '' @ py_str repr url' @ newline
              @ ''   '' @ py_str repr description @ newline @ newline))))"

text \<open>Lines 71 to 106: the branches on the status code, then the walk of the body.\<close>

definition handle_response :: "(pyval \<Rightarrow> string) \<Rightarrow> string \<Rightarrow> response \<Rightarrow> exn + string" where
  "handle_response repr query resp =
     (if status_code resp = 429 then
        Inr ''Error: Rate limit exceeded. Please try again in a moment.''
      else if status_code resp = 401 then
        Inr ''Error: Invalid Brave API key. Please check your configuration.''
      else if status_code resp \<noteq> 200 then
        Inr (''Error: '' @ ''Brave API returned '' @ py_str_int (status_code resp) @ '': ''
               @ take 200 (response_text resp))
      else
        (case json resp of
           Inl e \<Rightarrow> Inl e
         | Inr data \<Rightarrow>
        (case py_get data ''web'' (PDict []) of
           Inl e \<Rightarrow> Inl e
         | Inr web \<Rightarrow>
        (case py_get web ''results'' (PList []) of
           Inl e \<Rightarrow> Inl e
         | Inr web_results \<Rightarrow>
             if \<not> truthy web_results then
               Inr (''No search results found for query: '' @ query)
             else
               (case py_iter web_results of
                  Inl e \<Rightarrow> Inl e
                | Inr items \<Rightarrow>
                    format_results repr 1 items
                      (''Search Results for '' @ quote @ query @ quote @ '':'' @ newline @ newline))))))"

text \<open>
  \<open>except asyncio.TimeoutError\<close> catches the instances of that class, \<open>except Exception\<close>
  after it everything else.
\<close>

fun is_timeout :: "exn \<Rightarrow> bool" where
  "is_timeout (TimeoutError m) = True"
| "is_timeout e = False"

text \<open>Lines 54 to 69: the headers, the parameters and the endpoint of the GET.\<close>

definition search_request :: "string \<Rightarrow> string \<Rightarrow> int \<Rightarrow> request" where
  "search_request api_key query max_results =
     \<lparr>url = ''https://api.search.brave.com/res/v1/web/search'',
      headers = [(''X-Subscription-Token'', api_key), (''Accept'', ''application/json'')],
      params = [(''q'', PStr query), (''count'', PInt max_results), (''search_lang'', PStr ''en'')]\<rparr>"

text \<open>
  \<open>brave_search_tool\<close>. The two argument checks return before the limiter is entered;
  the \<open>try\<close> block builds the request, issues the one GET and handles the response; the
  two \<open>except\<close> clauses turn whatever was raised inside it into a string. The calls of
  the logger are left out: they change neither the result nor the world.
\<close>

definition brave_search_tool ::
  "(pyval \<Rightarrow> string) \<Rightarrow> string \<Rightarrow> session \<Rightarrow> string \<Rightarrow> int \<Rightarrow> world \<Rightarrow> (exn + string) \<times> world" where
  "brave_search_tool repr api_key sess query max_results w =
     (if api_key = [] \<or> strip api_key = [] then
        (Inr ''Error: Brave API key is required'', w)
      else if query = [] \<or> strip query = [] then
        (Inr ''Error: Search query cannot be empty'', w)
      else
        let max_results' = min (max max_results 1) 20;
            w1 = w\<lparr>limiter_entered := Suc (limiter_entered w)\<rparr>;
            req = search_request api_key query max_results';
            w2 = w1\<lparr>requests := requests w1 @ [req]\<rparr>;
            attempt = (case sess req of
                         Inl e \<Rightarrow> Inl e
                       | Inr resp \<Rightarrow> handle_response repr query resp)
        in (case attempt of
              Inr result \<Rightarrow> (Inr result, w2)
            | Inl e \<Rightarrow>
                if is_timeout e then (Inr (''Error: '' @ ''Search request timed out''), w2)
                else (Inr (''Error: '' @ ''Search failed: '' @ exn_str e), w2)))"

section \<open>Settings\<close>

text \<open>\<open>str.lower()\<close>, for the code points below 256.\<close>

definition py_lower_char :: "char \<Rightarrow> char" where
  "py_lower_char c =
     (let n = (of_char c :: nat)
      in if (65 \<le> n \<and> n \<le> 90) \<or> (192 \<le> n \<and> n \<le> 222 \<and> n \<noteq> 215)
         then char_of (n + 32) else c)"

definition py_lower :: "string \<Rightarrow> string" where
  "py_lower s = map py_lower_char s"

record Settings =
  llm_provider :: string
  llm_api_key :: string
  llm_model :: string
  llm_base_url :: string
  brave_api_key :: string
  brave_search_url :: string
  app_env :: string
  log_level :: string
  debug :: bool

text \<open>
  One entry of a validation error: the field it is about, and for a value that was
  present but rejected the reason.
\<close>

datatype field_error = Missing string | Invalid string string

fun error_field :: "field_error \<Rightarrow> string" where
  "error_field (Missing name) = name"
| "error_field (Invalid name msg) = name"

text \<open>The validator of the two key fields.\<close>

definition validate_api_keys :: "string \<Rightarrow> exn + string" where
  "validate_api_keys v =
     (if v = [] \<or> strip v = [] then Inl (ValueError ''API key cannot be empty'') else Inr v)"

text \<open>
  How the settings base class reads a field from the environment. The environment is
  the variables it sees, those of the process and of the \<open>.env\<close> file, under their
  lower-cased names (\<open>case_sensitive=False\<close>). A string field takes any value; a field
  declared with \<open>Field(...)\<close> must be present, and its validator runs on the value; the
  \<open>bool\<close> field accepts the spellings of true and false, in any case, and nothing else.
\<close>

definition parse_bool :: "string \<Rightarrow> bool option" where
  "parse_bool v =
     (let l = py_lower v
      in if l \<in> set [''1'', ''true'', ''t'', ''yes'', ''y'', ''on''] then Some True
         else if l \<in> set [''0'', ''false'', ''f'', ''no'', ''n'', ''off''] then Some False
         else None)"

definition str_field :: "(string \<rightharpoonup> string) \<Rightarrow> string \<Rightarrow> string \<Rightarrow> string" where
  "str_field env name dflt = (case env name of None \<Rightarrow> dflt | Some v \<Rightarrow> v)"

definition key_field :: "(string \<rightharpoonup> string) \<Rightarrow> string \<Rightarrow> field_error + string" where
  "key_field env name =
     (case env name of
        None \<Rightarrow> Inl (Missing name)
      | Some v \<Rightarrow>
          (case validate_api_keys v of
             Inl e \<Rightarrow> Inl (Invalid name (''Value error, '' @ exn_str e))
           | Inr v' \<Rightarrow> Inr v'))"

definition bool_field :: "(string \<rightharpoonup> string) \<Rightarrow> string \<Rightarrow> bool \<Rightarrow> field_error + bool" where
  "bool_field env name dflt =
     (case env name of
        None \<Rightarrow> Inr dflt
      | Some v \<Rightarrow>
          (case parse_bool v of
             None \<Rightarrow> Inl (Invalid name ''Input should be a valid boolean, unable to interpret input'')
           | Some b \<Rightarrow> Inr b))"

definition errors_of :: "field_error + 'a \<Rightarrow> field_error list" where
  "errors_of r = (case r of Inl e \<Rightarrow> [e] | Inr v \<Rightarrow> [])"

text \<open>
  \<open>Settings()\<close>: every field is read; the object is built when none failed, and the
  failures are raised together otherwise.
\<close>

definition Settings_init :: "(string \<rightharpoonup> string) \<Rightarrow> field_error list + Settings" where
  "Settings_init env =
     (case (key_field env ''llm_api_key'', key_field env ''brave_api_key'',
            bool_field env ''debug'' False) of
        (Inr llm_key, Inr brave_key, Inr dbg) \<Rightarrow>
          Inr \<lparr>llm_provider = str_field env ''llm_provider'' ''openai'',
               llm_api_key = llm_key,
               llm_model = str_field env ''llm_model'' ''gpt-4o'',
               llm_base_url = str_field env ''llm_base_url'' ''https://api.openai.com/v1'',
               brave_api_key = brave_key,
               brave_search_url = str_field env ''brave_search_url''
                                    ''https://api.search.brave.com/res/v1/web/search'',
               app_env = str_field env ''app_env'' ''development'',
               log_level = str_field env ''log_level'' ''INFO'',
               debug = dbg\<rparr>
      | (k1, k2, d) \<Rightarrow> Inl (errors_of k1 @ errors_of k2 @ errors_of d))"

text \<open>
  \<open>load_settings\<close>: whatever \<open>Settings()\<close> raises becomes a \<open>ValueError\<close> whose message
  names the variables to set. \<open>render\<close> is the text of the validation error, \<open>str(e)\<close>;
  \<open>env\<close> is the environment at the time of the call.
\<close>

definition load_settings :: "(field_error list \<Rightarrow> string) \<Rightarrow> (string \<rightharpoonup> string) \<Rightarrow> exn + Settings" where
  "load_settings render env =
     (case Settings_init env of
        Inr settings \<Rightarrow> Inr settings
      | Inl errs \<Rightarrow>
          (let e_str = render errs;
               error_msg = ''Failed to load settings: '' @ e_str;
               error_msg1 = (if sublist ''llm_api_key'' (py_lower e_str)
                             then error_msg @ newline
                                    @ ''Make sure to set LLM_API_KEY in your .env file''
                             else error_msg);
               error_msg2 = (if sublist ''brave_api_key'' (py_lower e_str)
                             then error_msg1 @ newline
                                    @ ''Make sure to set BRAVE_API_KEY in your .env file''
                             else error_msg1)
           in Inl (ValueError error_msg2)))"

section \<open>Dependencies and the agent\<close>

text \<open>
  The dependency bundle. Its session is a parameter: for the tool it is the session's
  behaviour, what it answers to a request; for the lifetime of the bundle it is the
  identity of the HTTP client among the clients created so far.
\<close>

record 's BraveSearchDependencies =
  brave_api_key :: string
  session :: 's
  session_id :: "string option"

record 'd RunContext =
  deps :: 'd

text \<open>
  \<open>search_web\<close>, the tool registered with the agent: it clamps \<open>max_results\<close>, calls
  \<open>brave_search_tool\<close> with the key and the session of the dependencies, and turns an
  exception into a string. The function it calls is whatever the name
  \<open>brave_search_tool\<close> is bound to when it runs, which the tests replace by a mock to
  see what is handed over; so the callee is a parameter of the body, and \<open>search_web\<close>
  is the body with the tool of the module.
\<close>

type_synonym tool =
  "(pyval \<Rightarrow> string) \<Rightarrow> string \<Rightarrow> session \<Rightarrow> string \<Rightarrow> int \<Rightarrow> world \<Rightarrow> (exn + string) \<times> world"

definition search_web_with ::
  "tool \<Rightarrow> (pyval \<Rightarrow> string) \<Rightarrow> (request \<Rightarrow> exn + response) BraveSearchDependencies RunContext
     \<Rightarrow> string \<Rightarrow> int \<Rightarrow> world \<Rightarrow> (exn + string) \<times> world" where
  "search_web_with callee repr ctx query max_results w =
     (let max_results' = min (max max_results 1) 20
      in case callee repr (BraveSearchDependencies.brave_api_key (deps ctx))
                (session (deps ctx)) query max_results' w of
           (Inr results, w') \<Rightarrow> (Inr results, w')
         | (Inl e, w') \<Rightarrow> (Inr (''Web search failed: '' @ exn_str e), w'))"

definition search_web ::
  "(pyval \<Rightarrow> string) \<Rightarrow> (request \<Rightarrow> exn + response) BraveSearchDependencies RunContext
     \<Rightarrow> string \<Rightarrow> int \<Rightarrow> world \<Rightarrow> (exn + string) \<times> world" where
  "search_web = search_web_with brave_search_tool"

text \<open>
  The HTTP clients: those created, by number in the order of their creation, and those
  on which \<open>aclose()\<close> has been awaited.
\<close>

record clients =
  opened :: "nat list"
  closed :: "nat list"

text \<open>
  The agent of the framework is a parameter: \<open>run\<close> and \<open>run_sync\<close> return a result with
  its \<open>data\<close> or raise, and may do to the clients what they like.
\<close>

record run_result =
  data :: string

record agent =
  run :: "string \<Rightarrow> nat BraveSearchDependencies \<Rightarrow> clients \<Rightarrow> (exn + run_result) \<times> clients"
  run_sync :: "string \<Rightarrow> nat BraveSearchDependencies \<Rightarrow> clients \<Rightarrow> (exn + run_result) \<times> clients"

text \<open>
  \<open>BraveSearchDependencies.create\<close>: the settings are loaded first, and a failure there
  is raised before any client exists.
\<close>

definition BraveSearchDependencies_create ::
  "(field_error list \<Rightarrow> string) \<Rightarrow> (string \<rightharpoonup> string) \<Rightarrow> string option \<Rightarrow> clients
     \<Rightarrow> (exn + nat BraveSearchDependencies) \<times> clients" where
  "BraveSearchDependencies_create render env sid st =
     (case load_settings render env of
        Inl e \<Rightarrow> (Inl e, st)
      | Inr settings \<Rightarrow>
          (let client = length (opened st)
           in (Inr \<lparr>BraveSearchDependencies.brave_api_key = Settings.brave_api_key settings,
                     session = client, session_id = sid\<rparr>,
               st\<lparr>opened := opened st @ [client]\<rparr>)))"

text \<open>\<open>BraveSearchDependencies.close\<close>: \<open>await self.session.aclose()\<close>.\<close>

definition close :: "nat BraveSearchDependencies \<Rightarrow> clients \<Rightarrow> clients" where
  "close d st = st\<lparr>closed := closed st @ [session d]\<rparr>"

text \<open>
  The two entry points: \<open>create\<close>, then the run inside \<open>try\<close>, then \<open>close\<close> in
  \<open>finally\<close>, on the way out of a return and of an exception alike. Neither uses its
  \<open>max_results\<close>.
\<close>

definition run_research ::
  "agent \<Rightarrow> (field_error list \<Rightarrow> string) \<Rightarrow> (string \<rightharpoonup> string) \<Rightarrow> string \<Rightarrow> string option \<Rightarrow> int
     \<Rightarrow> clients \<Rightarrow> (exn + string) \<times> clients" where
  "run_research ag render env query sid max_results st =
     (case BraveSearchDependencies_create render env sid st of
        (Inl e, st1) \<Rightarrow> (Inl e, st1)
      | (Inr d, st1) \<Rightarrow>
          (case run ag query d st1 of
             (Inl e, st2) \<Rightarrow> (Inl e, close d st2)
           | (Inr result, st2) \<Rightarrow> (Inr (data result), close d st2)))"

definition run_research_sync ::
  "agent \<Rightarrow> (field_error list \<Rightarrow> string) \<Rightarrow> (string \<rightharpoonup> string) \<Rightarrow> string \<Rightarrow> string option \<Rightarrow> int
     \<Rightarrow> clients \<Rightarrow> (exn + string) \<times> clients" where
  "run_research_sync ag render env query sid max_results st =
     (case BraveSearchDependencies_create render env sid st of
        (Inl e, st1) \<Rightarrow> (Inl e, st1)
      | (Inr d, st1) \<Rightarrow>
          (case run_sync ag query d st1 of
             (Inl e, st2) \<Rightarrow> (Inl e, close d st2)
           | (Inr result, st2) \<Rightarrow> (Inr (data result), close d st2)))"

section \<open>What the specification speaks of\<close>

text \<open>The \<open>count\<close> parameter of a request, as the search API reads it.\<close>

definition count_param :: "request \<Rightarrow> pyval option" where
  "count_param r = map_of (params r) ''count''"

text \<open>
  The report as the specification words it: a header naming the query, then one numbered
  entry per result in the order given, each with title, URL and description, a fixed
  placeholder standing in for a field the result lacks.
\<close>

definition field_or :: "(pyval \<Rightarrow> string) \<Rightarrow> (string \<times> pyval) list \<Rightarrow> string \<Rightarrow> string \<Rightarrow> string" where
  "field_or repr item key placeholder =
     (case map_of item key of None \<Rightarrow> placeholder | Some v \<Rightarrow> py_str repr v)"

definition spec_entry :: "(pyval \<Rightarrow> string) \<Rightarrow> nat \<times> (string \<times> pyval) list \<Rightarrow> string" where
  "spec_entry repr numbered =
     nat_digits (fst numbered) @ ''. **'' @ field_or repr (snd numbered) ''title'' ''No title''
       @ ''**'' @ newline
       @ ''   URL: '' @ field_or repr (snd numbered) ''url'' ''No URL'' @ newline
       @ ''   '' @ field_or repr (snd numbered) ''description'' ''No description''
       @ newline @ newline"

definition spec_report :: "(pyval \<Rightarrow> string) \<Rightarrow> string \<Rightarrow> (string \<times> pyval) list list \<Rightarrow> string" where
  "spec_report repr query results =
     ''Search Results for '' @ quote @ query @ quote @ '':'' @ newline @ newline
       @ concat (map (spec_entry repr) (zip [1 ..< Suc (length results)] results))"

text \<open>
  The walk of a decoded body as the specification words it: the list under
  \<open>data.web.results\<close>, empty when \<open>web\<close> or \<open>results\<close> is absent or the value there is
  falsy, each result an object; or the exception that the walk raises, where something
  that is no object is asked for a field or something that is no collection is iterated.
\<close>

definition no_get :: "pyval \<Rightarrow> exn" where
  "no_get v = AttributeError
     (quote @ type_name v @ quote @ '' object has no attribute '' @ quote @ ''get'' @ quote)"

fun as_objects :: "pyval list \<Rightarrow> exn + (string \<times> pyval) list list" where
  "as_objects [] = Inr []"
| "as_objects (PDict item # rest) =
     (case as_objects rest of Inl e \<Rightarrow> Inl e | Inr items \<Rightarrow> Inr (item # items))"
| "as_objects (v # rest) = Inl (no_get v)"

definition spec_results :: "pyval \<Rightarrow> exn + (string \<times> pyval) list list" where
  "spec_results v = (if truthy v then (case py_iter v of Inl e \<Rightarrow> Inl e | Inr items \<Rightarrow> as_objects items)
                     else Inr [])"

definition spec_walk :: "pyval \<Rightarrow> exn + (string \<times> pyval) list list" where
  "spec_walk body =
     (case body of
        PDict top' \<Rightarrow>
          (case map_of top' ''web'' of
             None \<Rightarrow> Inr []
           | Some (PDict web) \<Rightarrow>
               (case map_of web ''results'' of
                  None \<Rightarrow> Inr []
                | Some v \<Rightarrow> spec_results v)
           | Some v \<Rightarrow> Inl (no_get v))
      | v \<Rightarrow> Inl (no_get v))"

text \<open>
  A required key as the specification wants it: present, and neither empty nor all
  whitespace. The optional \<open>DEBUG\<close> variable: unset, or a boolean.
\<close>

definition key_ok :: "(string \<rightharpoonup> string) \<Rightarrow> string \<Rightarrow> bool" where
  "key_ok env name = (case env name of None \<Rightarrow> False | Some v \<Rightarrow> \<not> list_all py_isspace v)"

definition debug_ok :: "(string \<rightharpoonup> string) \<Rightarrow> bool" where
  "debug_ok env = (case env ''debug'' of None \<Rightarrow> True | Some v \<Rightarrow> parse_bool v \<noteq> None)"

section \<open>Sample inputs\<close>

text \<open>
  A session that answers every request alike, a rendering of containers, an empty
  world; a body with two results, the second lacking its URL and description.
\<close>

definition mock_session :: "exn + response \<Rightarrow> session" where
  "mock_session outcome req = outcome"

definition plain_repr :: "pyval \<Rightarrow> string" where
  "plain_repr v = ''<value>''"

definition world0 :: world where
  "world0 = \<lparr>requests = [], limiter_entered = 0\<rparr>"

definition sample_body :: pyval where
  "sample_body =
     PDict [(''web'', PDict [(''results'', PList
        [PDict [(''title'', PStr ''Cats''), (''url'', PStr ''https://cats.example''),
                (''description'', PStr ''All about cats'')],
         PDict [(''title'', PStr ''More cats'')]])])]"

text \<open>A callee that answers with the \<open>max_results\<close> it was handed.\<close>

definition echo_tool :: tool where
  "echo_tool repr api_key sess query max_results w = (Inr (py_str_int max_results), w)"

text \<open>
  Environments: both keys set; both keys set and \<open>DEBUG\<close> no boolean; a key of spaces;
  a key missing. A rendering of validation errors that lists the fields. An agent whose
  runs raise, and no clients yet.
\<close>

definition names_render :: "field_error list \<Rightarrow> string" where
  "names_render errs = concat (map error_field errs)"

definition good_env :: "string \<rightharpoonup> string" where
  "good_env = map_of [(''llm_api_key'', ''test_llm_key''), (''brave_api_key'', ''test_brave_key'')]"

definition debug_env :: "string \<rightharpoonup> string" where
  "debug_env = map_of [(''llm_api_key'', ''test_llm_key''), (''brave_api_key'', ''test_brave_key''),
                       (''debug'', ''maybe'')]"

definition blank_key_env :: "string \<rightharpoonup> string" where
  "blank_key_env = map_of [(''llm_api_key'', ''test_llm_key''), (''brave_api_key'', ''   '')]"

definition missing_key_env :: "string \<rightharpoonup> string" where
  "missing_key_env = map_of [(''brave_api_key'', ''test_brave_key'')]"

definition failing_agent :: agent where
  "failing_agent =
     \<lparr>run = (\<lambda>query d st. (Inl (OtherException ''Test error''), st)),
      run_sync = (\<lambda>query d st. (Inl (OtherException ''Test error''), st))\<rparr>"

definition no_clients :: clients where
  "no_clients = \<lparr>opened = [], closed = []\<rparr>"

section \<open>Argument checks\<close>

lemma strip_empty_iff: "strip s = [] \<longleftrightarrow> list_all py_isspace s"
proof
  assume "strip s = []"
  then have all: "\<forall>c \<in> set (dropWhile py_isspace s). py_isspace c"
    by (simp add: strip_def)
  have "dropWhile py_isspace s = []"
  proof (cases "dropWhile py_isspace s")
    case Nil
    then show ?thesis .
  next
    case (Cons c cs)
    then have "\<not> py_isspace c"
      by (metis hd_dropWhile list.distinct(1) list.sel(1))
    moreover have "py_isspace c"
      using all Cons by simp
    ultimately show ?thesis by simp
  qed
  then show "list_all py_isspace s"
    by (simp add: list_all_iff)
next
  assume "list_all py_isspace s"
  then have "dropWhile py_isspace s = []"
    by (simp add: list_all_iff)
  then show "strip s = []"
    by (simp add: strip_def del: dropWhile_eq_Nil_conv)
qed

lemma blank_iff: "(s = [] \<or> strip s = []) \<longleftrightarrow> list_all py_isspace s"
  by (cases s) (auto simp: strip_empty_iff)

lemma tool_blank:
  "list_all py_isspace api_key \<or> list_all py_isspace query \<Longrightarrow>
   brave_search_tool repr api_key sess query max_results w
     = (Inr (if list_all py_isspace api_key then ''Error: Brave API key is required''
             else ''Error: Search query cannot be empty''), w)"
  by (auto simp add: brave_search_tool_def blank_iff)

lemma tool_world:
  "snd (brave_search_tool repr api_key sess query max_results w) =
     (if list_all py_isspace api_key \<or> list_all py_isspace query then w
      else w\<lparr>limiter_entered := Suc (limiter_entered w),
             requests := requests w @ [search_request api_key query (min (max max_results 1) 20)]\<rparr>)"
  by (simp add: brave_search_tool_def blank_iff Let_def split: sum.splits)

lemma tool_result:
  "\<not> list_all py_isspace api_key \<Longrightarrow> \<not> list_all py_isspace query \<Longrightarrow>
   fst (brave_search_tool repr api_key sess query max_results w) =
     (case (case sess (search_request api_key query (min (max max_results 1) 20)) of
              Inl e \<Rightarrow> Inl e
            | Inr resp \<Rightarrow> handle_response repr query resp) of
        Inr result \<Rightarrow> Inr result
      | Inl e \<Rightarrow> if is_timeout e then Inr ''Error: Search request timed out''
                 else Inr (''Error: Search failed: '' @ exn_str e))"
  by (simp add: brave_search_tool_def blank_iff Let_def split: sum.splits)

text \<open>
  C10. With an API key that is empty or all whitespace the tool returns the key error,
  and otherwise with a query that is empty or all whitespace the query error; in both
  cases the world is returned as it was: no GET was issued and the limiter was not
  entered.
\<close>

theorem blank_arguments_return_early:
  "list_all py_isspace api_key \<or> list_all py_isspace query \<Longrightarrow>
   brave_search_tool repr api_key sess query max_results w
     = (Inr (if list_all py_isspace api_key then ''Error: Brave API key is required''
             else ''Error: Search query cannot be empty''), w)"
  by (rule tool_blank)

theorem blank_arguments_return_early_witness:
  "(list_all py_isspace ''key'' \<or> list_all py_isspace ''   '')
   \<and> brave_search_tool plain_repr ''key'' (mock_session (Inl (OtherException ''unused'')))
         ''   '' 10 world0
       = (Inr ''Error: Search query cannot be empty'', world0)
   \<and> (list_all py_isspace [] \<or> list_all py_isspace ''cats'')
   \<and> brave_search_tool plain_repr [] (mock_session (Inl (OtherException ''unused'')))
         ''cats'' 10 world0
       = (Inr ''Error: Brave API key is required'', world0)"
proof -
  have q: "list_all py_isspace ''key'' \<or> list_all py_isspace ''   ''"
    by (simp add: py_isspace_def)
  have k: "list_all py_isspace [] \<or> list_all py_isspace ''cats''"
    by simp
  have nk: "\<not> list_all py_isspace ''key''"
    by (simp add: py_isspace_def)
  show ?thesis
    using q k nk
      blank_arguments_return_early [OF q, where repr = plain_repr
        and sess = "mock_session (Inl (OtherException ''unused''))" and max_results = 10
        and w = world0]
      blank_arguments_return_early [OF k, where repr = plain_repr
        and sess = "mock_session (Inl (OtherException ''unused''))" and max_results = 10
        and w = world0]
    by simp
qed

section \<open>One request, no exception\<close>

text \<open>
  C6. Whatever the arguments, the session's answer and the world before, the GETs on
  record after a call of the tool are those on record before it followed by at most one
  more: nothing is retried.
\<close>

theorem at_most_one_get:
  "\<exists>issued. requests (snd (brave_search_tool repr api_key sess query max_results w))
               = requests w @ issued
            \<and> length issued \<le> 1"
  by (simp add: tool_world)

text \<open>
  C4. The tool never raises: for every key, query, \<open>max_results\<close> and behaviour of the
  session (a response of any status, a body whose decoding raises, a raised exception)
  its outcome is a returned string.
\<close>

theorem never_raises:
  "\<exists>result. fst (brave_search_tool repr api_key sess query max_results w) = Inr result"
proof (cases "list_all py_isspace api_key \<or> list_all py_isspace query")
  case True
  then show ?thesis
    by (simp add: tool_blank)
next
  case False
  then show ?thesis
    by (simp add: tool_result split: sum.splits)
qed

section \<open>The count sent\<close>

lemma search_web_world:
  "snd (search_web repr ctx query max_results w)
     = snd (brave_search_tool repr (BraveSearchDependencies.brave_api_key (deps ctx))
              (session (deps ctx)) query (min (max max_results 1) 20) w)"
  by (simp add: search_web_def search_web_with_def Let_def split: prod.splits sum.splits)

lemma count_param_search_request: "count_param (search_request api_key query c) = Some (PInt c)"
  by (simp add: count_param_def search_request_def)

lemma clamp_idem: "min (max (min (max (m::int) 1) 20) 1) 20 = min (max m 1) 20"
  by simp

text \<open>
  C9. When a request is sent at all (key and query not blank), its \<open>count\<close> parameter is
  \<open>min(max(max_results, 1), 20)\<close>, a number from 1 to 20, whatever integer the caller
  gave; this holds for \<open>brave_search_tool\<close> called directly and for the agent's
  \<open>search_web\<close>. The clamp is applied in both: \<open>search_web\<close> hands its callee, whatever
  function that is, the clamped number and not the caller's.
\<close>

theorem count_is_clamped:
  assumes "\<not> list_all py_isspace api_key" and "\<not> list_all py_isspace query"
  shows "map count_param (requests (snd (brave_search_tool repr api_key sess query max_results w)))
           = map count_param (requests w) @ [Some (PInt (min (max max_results 1) 20))]
       \<and> map count_param (requests (snd (search_web repr
              \<lparr>deps = \<lparr>brave_api_key = api_key, session = sess, session_id = sid\<rparr>\<rparr>
              query max_results w)))
           = map count_param (requests w) @ [Some (PInt (min (max max_results 1) 20))]
       \<and> search_web_with callee repr
              \<lparr>deps = \<lparr>brave_api_key = api_key, session = sess, session_id = sid\<rparr>\<rparr>
              query max_results w
           = (case callee repr api_key sess query (min (max max_results 1) 20) w of
                (Inr results, w') \<Rightarrow> (Inr results, w')
              | (Inl e, w') \<Rightarrow> (Inr (''Web search failed: '' @ exn_str e), w'))
       \<and> 1 \<le> min (max max_results 1) 20 \<and> min (max max_results 1) 20 \<le> 20"
proof -
  have tool: "map count_param (requests (snd (brave_search_tool repr api_key sess query m w)))
           = map count_param (requests w) @ [Some (PInt (min (max m 1) 20))]" for m
    using assms by (simp add: tool_world count_param_search_request)
  have web: "snd (search_web repr
              \<lparr>deps = \<lparr>brave_api_key = api_key, session = sess, session_id = sid\<rparr>\<rparr>
              query max_results w)
           = snd (brave_search_tool repr api_key sess query (min (max max_results 1) 20) w)"
    by (simp add: search_web_world)
  have call: "search_web_with callee repr
              \<lparr>deps = \<lparr>brave_api_key = api_key, session = sess, session_id = sid\<rparr>\<rparr>
              query max_results w
           = (case callee repr api_key sess query (min (max max_results 1) 20) w of
                (Inr results, w') \<Rightarrow> (Inr results, w')
              | (Inl e, w') \<Rightarrow> (Inr (''Web search failed: '' @ exn_str e), w'))"
    by (simp add: search_web_with_def)
  show ?thesis
    unfolding web tool clamp_idem using call by simp
qed

theorem count_is_clamped_witness:
  "\<not> list_all py_isspace ''key'' \<and> \<not> list_all py_isspace ''cats''
   \<and> map count_param (requests (snd (brave_search_tool plain_repr ''key''
          (mock_session (Inl (OtherException ''down''))) ''cats'' 25 world0)))
       = [Some (PInt 20)]
   \<and> map count_param (requests (snd (search_web plain_repr
          \<lparr>deps = \<lparr>brave_api_key = ''key'', session = mock_session (Inl (OtherException ''down'')),
                   session_id = None\<rparr>\<rparr>
          ''cats'' 0 world0)))
       = [Some (PInt 1)]
   \<and> search_web_with echo_tool plain_repr
          \<lparr>deps = \<lparr>brave_api_key = ''key'', session = mock_session (Inl (OtherException ''down'')),
                   session_id = None\<rparr>\<rparr>
          ''cats'' 25 world0
       = (Inr ''20'', world0)
   \<and> search_web_with echo_tool plain_repr
          \<lparr>deps = \<lparr>brave_api_key = ''key'', session = mock_session (Inl (OtherException ''down'')),
                   session_id = None\<rparr>\<rparr>
          ''cats'' 0 world0
       = (Inr ''1'', world0)"
proof -
  have k: "\<not> list_all py_isspace ''key''" and q: "\<not> list_all py_isspace ''cats''"
    by (simp_all add: py_isspace_def)
  note inst = count_is_clamped [OF k q, where repr = plain_repr
        and sess = "mock_session (Inl (OtherException ''down''))"
        and w = world0 and sid = None and callee = echo_tool]
  show ?thesis
    using k q inst [where max_results = 25] inst [where max_results = 0]
    by (simp add: world0_def echo_tool_def py_str_int_def nat_digits.simps digit_char_def)
qed

section \<open>Exceptions of the request\<close>

text \<open>
  What the two \<open>except\<close> clauses do. When the GET raises, the tool returns the timeout
  message if what was raised is an \<open>asyncio.TimeoutError\<close>, and for every other
  exception the generic message that carries the exception's text; an exception raised
  while the body of a 200 response is decoded is treated the same way.
\<close>

lemma except_clauses:
  assumes "\<not> list_all py_isspace api_key" and "\<not> list_all py_isspace query"
  shows "(sess (search_request api_key query (min (max max_results 1) 20)) = Inl e \<longrightarrow>
            fst (brave_search_tool repr api_key sess query max_results w)
              = Inr (if is_timeout e then ''Error: Search request timed out''
                     else ''Error: Search failed: '' @ exn_str e))
       \<and> (sess (search_request api_key query (min (max max_results 1) 20)) = Inr resp
            \<and> status_code resp = 200 \<and> json resp = Inl e \<longrightarrow>
            fst (brave_search_tool repr api_key sess query max_results w)
              = Inr (if is_timeout e then ''Error: Search request timed out''
                     else ''Error: Search failed: '' @ exn_str e))"
  using assms by (simp add: tool_result handle_response_def)

lemma except_clauses_example:
  "\<not> list_all py_isspace ''key'' \<and> \<not> list_all py_isspace ''cats''
   \<and> fst (brave_search_tool plain_repr ''key'' (mock_session (Inl (TimeoutError [])))
            ''cats'' 10 world0)
       = Inr ''Error: Search request timed out''
   \<and> fst (brave_search_tool plain_repr ''key''
            (mock_session (Inl (OtherException ''Connection error''))) ''cats'' 10 world0)
       = Inr ''Error: Search failed: Connection error''
   \<and> fst (brave_search_tool plain_repr ''key''
            (mock_session (Inr \<lparr>status_code = 200, response_text = ''<html>'',
                                 json = Inl (ValueError ''Expecting value'')\<rparr>))
            ''cats'' 10 world0)
       = Inr ''Error: Search failed: Expecting value''"
proof -
  have k: "\<not> list_all py_isspace ''key''" and q: "\<not> list_all py_isspace ''cats''"
    by (simp_all add: py_isspace_def)
  show ?thesis
    using k q
      except_clauses [where api_key = "''key''" and query = "''cats''"
        and max_results = 10 and repr = plain_repr and w = world0
        and sess = "mock_session (Inl (TimeoutError []))" and e = "TimeoutError []"]
      except_clauses [where api_key = "''key''" and query = "''cats''"
        and max_results = 10 and repr = plain_repr and w = world0
        and sess = "mock_session (Inl (OtherException ''Connection error''))"
        and e = "OtherException ''Connection error''"]
      except_clauses [where api_key = "''key''" and query = "''cats''"
        and max_results = 10 and repr = plain_repr and w = world0
        and sess = "mock_session (Inr \<lparr>status_code = 200, response_text = ''<html>'',
                                 json = Inl (ValueError ''Expecting value'')\<rparr>)"
        and resp = "\<lparr>status_code = 200, response_text = ''<html>'',
                                 json = Inl (ValueError ''Expecting value'')\<rparr>"
        and e = "ValueError ''Expecting value''"]
    by (simp add: mock_session_def)
qed

text \<open>
  C3. A request that times out in the client the dependencies create is raised as an
  \<open>httpx.TimeoutException\<close>. The clause for \<open>asyncio.TimeoutError\<close> does not catch it:
  the tool answers with the generic message, not with the timeout message.
\<close>

theorem request_timeout_gets_generic_message:
  "fst (brave_search_tool plain_repr ''key'' (mock_session (Inl (TimeoutException [])))
          ''cats'' 10 world0)
     = Inr ''Error: Search failed: ''"
  by (simp add: tool_result py_isspace_def mock_session_def)

section \<open>The report\<close>

lemma py_get_dict:
  "py_get (PDict item) key dflt = Inr (case map_of item key of None \<Rightarrow> dflt | Some x \<Rightarrow> x)"
  by (simp add: py_get_def)

lemma py_str_get:
  "py_str repr (case map_of item key of None \<Rightarrow> PStr placeholder | Some x \<Rightarrow> x)
     = field_or repr item key placeholder"
  by (simp add: field_or_def py_str_def split: option.splits)

lemma format_results_dicts:
  "format_results repr i (map PDict ds) acc
     = Inr (acc @ concat (map (spec_entry repr) (zip [i ..< i + length ds] ds)))"
proof (induction ds arbitrary: i acc)
  case Nil
  then show ?case by simp
next
  case (Cons d ds)
  have upt: "[i ..< i + length (d # ds)] = i # [Suc i ..< Suc i + length ds]"
    by (subst upt_rec) simp
  show ?case
    unfolding upt
    by (simp add: py_get_dict py_str_get Cons.IH spec_entry_def)
qed

lemma handle_response_200:
  "status_code resp = 200 \<Longrightarrow>
   handle_response repr query resp =
     (case json resp of
        Inl e \<Rightarrow> Inl e
      | Inr body \<Rightarrow>
     (case py_get body ''web'' (PDict []) of
        Inl e \<Rightarrow> Inl e
      | Inr web \<Rightarrow>
     (case py_get web ''results'' (PList []) of
        Inl e \<Rightarrow> Inl e
      | Inr web_results \<Rightarrow>
          if \<not> truthy web_results then
            Inr (''No search results found for query: '' @ query)
          else
            (case py_iter web_results of
               Inl e \<Rightarrow> Inl e
             | Inr items \<Rightarrow>
                 format_results repr 1 items
                   (''Search Results for '' @ quote @ query @ quote @ '':'' @ newline @ newline)))))"
  by (simp add: handle_response_def)

lemma py_iter_nonempty:
  "truthy v \<Longrightarrow> py_iter v = Inr items \<Longrightarrow> items \<noteq> []"
  by (cases v) (auto simp: truthy_def py_iter_def)

lemma py_get_not_dict: "(\<And>item. v \<noteq> PDict item) \<Longrightarrow> py_get v key dflt = Inl (no_get v)"
  by (cases v) (auto simp: py_get_def no_get_def)

lemma format_results_as_objects:
  "format_results repr i items acc =
     (case as_objects items of
        Inl e \<Rightarrow> Inl e
      | Inr ds \<Rightarrow> Inr (acc @ concat (map (spec_entry repr) (zip [i ..< i + length ds] ds))))"
proof (induction items arbitrary: i acc rule: as_objects.induct)
  case 1
  then show ?case by simp
next
  case (2 item rest)
  have step: "format_results repr i (PDict item # rest) acc
                = format_results repr (Suc i) rest (acc @ spec_entry repr (i, item))"
    by (simp add: py_get_dict py_str_get spec_entry_def)
  show ?case
  proof (cases "as_objects rest")
    case (Inl e)
    then show ?thesis
      by (simp add: step "2.IH" del: format_results.simps)
  next
    case (Inr ds)
    have upt: "[i ..< i + length (item # ds)] = i # [Suc i ..< Suc i + length ds]"
      by (subst upt_rec) simp
    have "format_results repr i (PDict item # rest) acc
            = Inr (acc @ concat (map (spec_entry repr)
                     (zip [i ..< i + length (item # ds)] (item # ds))))"
      unfolding upt by (simp add: step "2.IH" Inr del: format_results.simps)
    then show ?thesis
      by (simp add: Inr)
  qed
qed (simp_all add: py_get_not_dict)

lemma as_objects_timeout: "as_objects items = Inl e \<Longrightarrow> \<not> is_timeout e"
  by (induction items arbitrary: e rule: as_objects.induct)
     (auto simp: no_get_def split: sum.splits)

lemma as_objects_nonempty: "as_objects items = Inr [] \<Longrightarrow> items = []"
  by (induction items rule: as_objects.induct) (auto split: sum.splits)

lemma spec_results_timeout: "spec_results v = Inl e \<Longrightarrow> \<not> is_timeout e"
  by (cases v) (auto simp: spec_results_def py_iter_def dest: as_objects_timeout split: if_splits sum.splits)

lemma spec_walk_timeout: "spec_walk body = Inl e \<Longrightarrow> \<not> is_timeout e"
  by (auto simp: spec_walk_def no_get_def dest: spec_results_timeout
        split: pyval.splits option.splits)

lemma results_200:
  "(if \<not> truthy v then Inr (''No search results found for query: '' @ query)
    else (case py_iter v of
            Inl e \<Rightarrow> Inl e
          | Inr items \<Rightarrow>
              format_results repr 1 items
                (''Search Results for '' @ quote @ query @ quote @ '':'' @ newline @ newline)))
   = (case spec_results v of
        Inl e \<Rightarrow> Inl e
      | Inr ds \<Rightarrow> Inr (if ds = [] then ''No search results found for query: '' @ query
                      else spec_report repr query ds))"
proof (cases "truthy v")
  case False
  then show ?thesis by (simp add: spec_results_def)
next
  case True
  show ?thesis
  proof (cases "py_iter v")
    case (Inl e)
    with True show ?thesis by (simp add: spec_results_def)
  next
    case (Inr items)
    with True have ne: "items \<noteq> []" by (rule py_iter_nonempty)
    show ?thesis
    proof (cases "as_objects items")
      case (Inl e)
      with True Inr show ?thesis
        by (simp add: spec_results_def format_results_as_objects)
    next
      case ds: (Inr ds)
      with ne have "ds \<noteq> []" using as_objects_nonempty by blast
      with True Inr ds show ?thesis
        by (simp add: spec_results_def format_results_as_objects spec_report_def)
    qed
  qed
qed

lemma handle_response_200_walk:
  assumes "status_code resp = 200" and "json resp = Inr body"
  shows "handle_response repr query resp =
     (case spec_walk body of
        Inl e \<Rightarrow> Inl e
      | Inr ds \<Rightarrow> Inr (if ds = [] then ''No search results found for query: '' @ query
                      else spec_report repr query ds))"
proof (cases body)
  case (PDict top')
  show ?thesis
  proof (cases "map_of top' ''web''")
    case None
    with PDict assms show ?thesis
      by (simp add: handle_response_200 py_get_dict spec_walk_def truthy_def)
  next
    case (Some web)
    show ?thesis
    proof (cases web)
      case web: (PDict web')
      show ?thesis
      proof (cases "map_of web' ''results''")
        case None
        with PDict Some web assms show ?thesis
          by (simp add: handle_response_200 py_get_dict spec_walk_def truthy_def)
      next
        case rs: (Some v)
        with PDict Some web assms show ?thesis
          by (simp add: handle_response_200 py_get_dict spec_walk_def results_200
                del: format_results.simps)
      qed
    qed (use PDict Some assms in
          \<open>simp_all add: handle_response_200 py_get_dict py_get_def spec_walk_def no_get_def type_name_def\<close>)
  qed
qed (use assms in \<open>simp_all add: handle_response_200 py_get_def spec_walk_def no_get_def type_name_def\<close>)

section \<open>The branches on the status code\<close>

text \<open>
  C2, as the code has it. For a response received, 429 gives the rate-limit string and
  401 the key string; any other status but 200 gives the generic string with the status
  code and the first 200 characters of the response text. At 200, when decoding the body
  raises, the tool returns the generic failure string with the exception's text; when
  the body decodes, the tool returns that same string for the exception the walk of the
  body raises, the no-results message when the walk finds no results, and the report of
  the results otherwise.
\<close>

theorem status_branches:
  assumes "\<not> list_all py_isspace api_key" and "\<not> list_all py_isspace query"
    and "sess (search_request api_key query (min (max max_results 1) 20)) = Inr resp"
  shows "(status_code resp = 429 \<longrightarrow>
            fst (brave_search_tool repr api_key sess query max_results w)
              = Inr ''Error: Rate limit exceeded. Please try again in a moment.'')
       \<and> (status_code resp = 401 \<longrightarrow>
            fst (brave_search_tool repr api_key sess query max_results w)
              = Inr ''Error: Invalid Brave API key. Please check your configuration.'')
       \<and> (status_code resp \<noteq> 429 \<and> status_code resp \<noteq> 401 \<and> status_code resp \<noteq> 200 \<longrightarrow>
            fst (brave_search_tool repr api_key sess query max_results w)
              = Inr (''Error: Brave API returned '' @ py_str_int (status_code resp) @ '': ''
                      @ take 200 (response_text resp)))
       \<and> (status_code resp = 200 \<and> json resp = Inl e \<and> \<not> is_timeout e \<longrightarrow>
            fst (brave_search_tool repr api_key sess query max_results w)
              = Inr (''Error: Search failed: '' @ exn_str e))
       \<and> (status_code resp = 200 \<and> json resp = Inr body \<longrightarrow>
            fst (brave_search_tool repr api_key sess query max_results w)
              = Inr (case spec_walk body of
                       Inl e' \<Rightarrow> ''Error: Search failed: '' @ exn_str e'
                     | Inr ds \<Rightarrow> if ds = [] then ''No search results found for query: '' @ query
                                else spec_report repr query ds))"
proof -
  have r: "fst (brave_search_tool repr api_key sess query max_results w) =
     (case handle_response repr query resp of
        Inr result \<Rightarrow> Inr result
      | Inl e \<Rightarrow> if is_timeout e then Inr ''Error: Search request timed out''
                 else Inr (''Error: Search failed: '' @ exn_str e))"
    using assms by (simp add: tool_result)
  have other: "status_code resp \<noteq> 200 \<Longrightarrow> ?thesis"
    by (simp add: r handle_response_def)
  have bad: "fst (brave_search_tool repr api_key sess query max_results w)
              = Inr (''Error: Search failed: '' @ exn_str e)"
    if "status_code resp = 200" and "json resp = Inl e" and "\<not> is_timeout e"
    using that by (simp add: r handle_response_def)
  have walk: "fst (brave_search_tool repr api_key sess query max_results w)
              = Inr (case spec_walk body of
                       Inl e' \<Rightarrow> ''Error: Search failed: '' @ exn_str e'
                     | Inr ds \<Rightarrow> if ds = [] then ''No search results found for query: '' @ query
                                else spec_report repr query ds)"
    if s: "status_code resp = 200" and j: "json resp = Inr body"
  proof (cases "spec_walk body")
    case (Inl e')
    then have "\<not> is_timeout e'" by (rule spec_walk_timeout)
    with Inl show ?thesis
      by (simp add: r handle_response_200_walk [OF s j])
  next
    case (Inr ds)
    then show ?thesis
      by (simp add: r handle_response_200_walk [OF s j])
  qed
  show ?thesis
  proof (cases "status_code resp = 200")
    case True
    with bad walk show ?thesis by simp
  next
    case False
    then show ?thesis by (rule other)
  qed
qed

theorem status_branches_witness:
  "\<not> list_all py_isspace ''key'' \<and> \<not> list_all py_isspace ''cats''
   \<and> fst (brave_search_tool plain_repr ''key''
        (mock_session (Inr \<lparr>status_code = 429, response_text = ''Rate limit exceeded'',
                             json = Inr PNone\<rparr>)) ''cats'' 10 world0)
       = Inr ''Error: Rate limit exceeded. Please try again in a moment.''
   \<and> fst (brave_search_tool plain_repr ''key''
        (mock_session (Inr \<lparr>status_code = 401, response_text = ''Unauthorized'',
                             json = Inr PNone\<rparr>)) ''cats'' 10 world0)
       = Inr ''Error: Invalid Brave API key. Please check your configuration.''
   \<and> fst (brave_search_tool plain_repr ''key''
        (mock_session (Inr \<lparr>status_code = 500, response_text = ''Internal server error'',
                             json = Inr PNone\<rparr>)) ''cats'' 10 world0)
       = Inr ''Error: Brave API returned 500: Internal server error''
   \<and> fst (brave_search_tool plain_repr ''key''
        (mock_session (Inr \<lparr>status_code = 200, response_text = ''<html>'',
                             json = Inl (ValueError ''Expecting value'')\<rparr>)) ''cats'' 10 world0)
       = Inr ''Error: Search failed: Expecting value''
   \<and> fst (brave_search_tool plain_repr ''key''
        (mock_session (Inr \<lparr>status_code = 200, response_text = [],
                             json = Inr (PDict [(''web'', PDict [(''results'', PList [])])])\<rparr>))
        ''cats'' 10 world0)
       = Inr ''No search results found for query: cats''
   \<and> fst (brave_search_tool plain_repr ''key''
        (mock_session (Inr \<lparr>status_code = 200, response_text = [],
                             json = Inr (PDict [(''web'', PNone)])\<rparr>))
        ''cats'' 10 world0)
       = Inr (''Error: Search failed: '' @ quote @ ''NoneType'' @ quote
               @ '' object has no attribute '' @ quote @ ''get'' @ quote)
   \<and> fst (brave_search_tool plain_repr ''key''
        (mock_session (Inr \<lparr>status_code = 200, response_text = [], json = Inr sample_body\<rparr>))
        ''cats'' 10 world0)
       = Inr (''Search Results for '' @ quote @ ''cats'' @ quote @ '':'' @ newline @ newline
              @ ''1. **Cats**'' @ newline
              @ ''   URL: https://cats.example'' @ newline
              @ ''   All about cats'' @ newline @ newline
              @ ''2. **More cats**'' @ newline
              @ ''   URL: No URL'' @ newline
              @ ''   No description'' @ newline @ newline)"
proof -
  have k: "\<not> list_all py_isspace ''key''" and q: "\<not> list_all py_isspace ''cats''"
    by (simp_all add: py_isspace_def)
  note inst = status_branches [where api_key = "''key''" and query = "''cats''"
      and max_results = 10 and repr = plain_repr and w = world0]
  show ?thesis
    using k q
      inst [where resp = "\<lparr>status_code = 429, response_text = ''Rate limit exceeded'', json = Inr PNone\<rparr>"
        and sess = "mock_session (Inr \<lparr>status_code = 429, response_text = ''Rate limit exceeded'', json = Inr PNone\<rparr>)"]
      inst [where resp = "\<lparr>status_code = 401, response_text = ''Unauthorized'', json = Inr PNone\<rparr>"
        and sess = "mock_session (Inr \<lparr>status_code = 401, response_text = ''Unauthorized'', json = Inr PNone\<rparr>)"]
      inst [where resp = "\<lparr>status_code = 500, response_text = ''Internal server error'', json = Inr PNone\<rparr>"
        and sess = "mock_session (Inr \<lparr>status_code = 500, response_text = ''Internal server error'', json = Inr PNone\<rparr>)"]
      inst [where resp = "\<lparr>status_code = 200, response_text = ''<html>'',
                     json = Inl (ValueError ''Expecting value'')\<rparr>"
        and sess = "mock_session (Inr \<lparr>status_code = 200, response_text = ''<html>'',
                     json = Inl (ValueError ''Expecting value'')\<rparr>)"
        and e = "ValueError ''Expecting value''"]
      inst [where resp = "\<lparr>status_code = 200, response_text = [],
                     json = Inr (PDict [(''web'', PDict [(''results'', PList [])])])\<rparr>"
        and sess = "mock_session (Inr \<lparr>status_code = 200, response_text = [],
                     json = Inr (PDict [(''web'', PDict [(''results'', PList [])])])\<rparr>)"
        and body = "PDict [(''web'', PDict [(''results'', PList [])])]"]
      inst [where resp = "\<lparr>status_code = 200, response_text = [],
                     json = Inr (PDict [(''web'', PNone)])\<rparr>"
        and sess = "mock_session (Inr \<lparr>status_code = 200, response_text = [],
                     json = Inr (PDict [(''web'', PNone)])\<rparr>)"
        and body = "PDict [(''web'', PNone)]"]
      inst [where resp = "\<lparr>status_code = 200, response_text = [], json = Inr sample_body\<rparr>"
        and sess = "mock_session (Inr \<lparr>status_code = 200, response_text = [], json = Inr sample_body\<rparr>)"
        and body = sample_body]
    by (simp add: mock_session_def py_str_int_def nat_digits.simps digit_char_def
          spec_walk_def spec_results_def truthy_def py_iter_def no_get_def type_name_def
          sample_body_def spec_report_def spec_entry_def field_or_def py_str_def upt_rec)
qed

text \<open>
  C2 as stated fails. A 200 response whose body is no JSON yields neither a report nor
  the no-results message, but the string of the generic handler, and so does a 200
  response whose \<open>web\<close> is \<open>null\<close>; and a 500 response with a text of 201 characters
  yields a string that holds only the first 200 of them.
\<close>

theorem status_branches_counterexample:
  "fst (brave_search_tool plain_repr ''key''
        (mock_session (Inr \<lparr>status_code = 200, response_text = ''<html>'',
                             json = Inl (ValueError ''Expecting value: line 1 column 1 (char 0)'')\<rparr>))
        ''cats'' 10 world0)
     = Inr ''Error: Search failed: Expecting value: line 1 column 1 (char 0)''
   \<and> fst (brave_search_tool plain_repr ''key''
        (mock_session (Inr \<lparr>status_code = 200, response_text = [],
                             json = Inr (PDict [(''web'', PNone)])\<rparr>))
        ''cats'' 10 world0)
     = Inr (''Error: Search failed: '' @ quote @ ''NoneType'' @ quote
             @ '' object has no attribute '' @ quote @ ''get'' @ quote)
   \<and> fst (brave_search_tool plain_repr ''key''
        (mock_session (Inr \<lparr>status_code = 500, response_text = replicate 200 (CHR ''a'') @ ''Z'',
                             json = Inr PNone\<rparr>))
        ''cats'' 10 world0)
     = Inr (''Error: Brave API returned 500: '' @ replicate 200 (CHR ''a''))
   \<and> \<not> sublist (replicate 200 (CHR ''a'') @ ''Z'')
                (''Error: Brave API returned 500: '' @ replicate 200 (CHR ''a''))"
proof -
  have a: "fst (brave_search_tool plain_repr ''key''
        (mock_session (Inr \<lparr>status_code = 200, response_text = ''<html>'',
                             json = Inl (ValueError ''Expecting value: line 1 column 1 (char 0)'')\<rparr>))
        ''cats'' 10 world0)
     = Inr ''Error: Search failed: Expecting value: line 1 column 1 (char 0)''"
    by (simp add: tool_result py_isspace_def mock_session_def handle_response_def)
  have n: "fst (brave_search_tool plain_repr ''key''
        (mock_session (Inr \<lparr>status_code = 200, response_text = [],
                             json = Inr (PDict [(''web'', PNone)])\<rparr>))
        ''cats'' 10 world0)
     = Inr (''Error: Search failed: '' @ quote @ ''NoneType'' @ quote
             @ '' object has no attribute '' @ quote @ ''get'' @ quote)"
    by (simp add: tool_result py_isspace_def mock_session_def handle_response_def py_get_def
          type_name_def)
  have b: "fst (brave_search_tool plain_repr ''key''
        (mock_session (Inr \<lparr>status_code = 500, response_text = replicate 200 (CHR ''a'') @ ''Z'',
                             json = Inr PNone\<rparr>))
        ''cats'' 10 world0)
     = Inr (''Error: Brave API returned 500: '' @ replicate 200 (CHR ''a''))"
    by (simp add: tool_result py_isspace_def mock_session_def handle_response_def
          py_str_int_def nat_digits.simps digit_char_def)
  have c: "\<not> sublist (replicate 200 (CHR ''a'') @ ''Z'')
                (''Error: Brave API returned 500: '' @ replicate 200 (CHR ''a''))"
  proof
    assume "sublist (replicate 200 (CHR ''a'') @ ''Z'')
                (''Error: Brave API returned 500: '' @ replicate 200 (CHR ''a''))"
    then have "set (replicate 200 (CHR ''a'') @ ''Z'')
                 \<subseteq> set (''Error: Brave API returned 500: '' @ replicate 200 (CHR ''a''))"
      by (rule set_mono_sublist)
    then show False by simp
  qed
  from a n b c show ?thesis by blast
qed

section \<open>The walk of the body\<close>

text \<open>
  C5. On a 200 response whose body is a dict: when \<open>web.results\<close> is a non-empty list of
  results the tool returns the report, a header naming the query and one numbered entry
  per result in the order given, each with title, URL and description or their
  placeholders; when \<open>web\<close> or \<open>results\<close> is absent, or the list is empty, it returns the
  no-results message naming the query.
\<close>

theorem results_report:
  assumes "\<not> list_all py_isspace api_key" and "\<not> list_all py_isspace query"
    and "sess (search_request api_key query (min (max max_results 1) 20)) = Inr resp"
    and "status_code resp = 200" and "json resp = Inr (PDict body)"
  shows "(map_of body ''web'' = Some (PDict web)
            \<and> map_of web ''results'' = Some (PList (map PDict ds)) \<and> ds \<noteq> [] \<longrightarrow>
          fst (brave_search_tool repr api_key sess query max_results w)
            = Inr (spec_report repr query ds))
       \<and> (map_of body ''web'' = None
            \<or> map_of body ''web'' = Some (PDict web)
                \<and> (map_of web ''results'' = None \<or> map_of web ''results'' = Some (PList [])) \<longrightarrow>
          fst (brave_search_tool repr api_key sess query max_results w)
            = Inr (''No search results found for query: '' @ query))"
proof -
  have r: "fst (brave_search_tool repr api_key sess query max_results w) =
     (case handle_response repr query resp of
        Inr result \<Rightarrow> Inr result
      | Inl e \<Rightarrow> if is_timeout e then Inr ''Error: Search request timed out''
                 else Inr (''Error: Search failed: '' @ exn_str e))"
    using assms(1-3) by (simp add: tool_result)
  have full: "handle_response repr query resp = Inr (spec_report repr query ds)"
    if "map_of body ''web'' = Some (PDict web)"
      and "map_of web ''results'' = Some (PList (map PDict ds))" and "ds \<noteq> []"
    using that assms(4,5)
    by (simp add: handle_response_200 py_get_dict truthy_def py_iter_def format_results_dicts
          spec_report_def)
  have none1: "handle_response repr query resp
                 = Inr (''No search results found for query: '' @ query)"
    if "map_of body ''web'' = None"
    using that assms(4,5) by (simp add: handle_response_200 py_get_dict truthy_def)
  have none2: "handle_response repr query resp
                 = Inr (''No search results found for query: '' @ query)"
    if "map_of body ''web'' = Some (PDict web)"
      and "map_of web ''results'' = None \<or> map_of web ''results'' = Some (PList [])"
    using that assms(4,5) by (auto simp add: handle_response_200 py_get_dict truthy_def)
  show ?thesis
    using full none1 none2 by (auto simp add: r)
qed

theorem results_report_witness:
  "\<not> list_all py_isspace ''key'' \<and> \<not> list_all py_isspace ''cats''
   \<and> fst (brave_search_tool plain_repr ''key''
        (mock_session (Inr \<lparr>status_code = 200, response_text = [], json = Inr sample_body\<rparr>))
        ''cats'' 10 world0)
       = Inr (''Search Results for '' @ quote @ ''cats'' @ quote @ '':'' @ newline @ newline
              @ ''1. **Cats**'' @ newline
              @ ''   URL: https://cats.example'' @ newline
              @ ''   All about cats'' @ newline @ newline
              @ ''2. **More cats**'' @ newline
              @ ''   URL: No URL'' @ newline
              @ ''   No description'' @ newline @ newline)
   \<and> fst (brave_search_tool plain_repr ''key''
        (mock_session (Inr \<lparr>status_code = 200, response_text = [], json = Inr (PDict [])\<rparr>))
        ''cats'' 10 world0)
       = Inr ''No search results found for query: cats''"
proof -
  have k: "\<not> list_all py_isspace ''key''" and q: "\<not> list_all py_isspace ''cats''"
    by (simp_all add: py_isspace_def)
  show ?thesis
    using k q
      results_report [where api_key = "''key''" and query = "''cats''" and max_results = 10
        and repr = plain_repr and w = world0
        and resp = "\<lparr>status_code = 200, response_text = [], json = Inr sample_body\<rparr>"
        and sess = "mock_session (Inr \<lparr>status_code = 200, response_text = [], json = Inr sample_body\<rparr>)"
        and body = "[(''web'', PDict [(''results'', PList
            [PDict [(''title'', PStr ''Cats''), (''url'', PStr ''https://cats.example''),
                (''description'', PStr ''All about cats'')],
             PDict [(''title'', PStr ''More cats'')]])])]"
        and web = "[(''results'', PList
            [PDict [(''title'', PStr ''Cats''), (''url'', PStr ''https://cats.example''),
                (''description'', PStr ''All about cats'')],
             PDict [(''title'', PStr ''More cats'')]])]"
        and ds = "[[(''title'', PStr ''Cats''), (''url'', PStr ''https://cats.example''),
                (''description'', PStr ''All about cats'')],
             [(''title'', PStr ''More cats'')]]"]
      results_report [where api_key = "''key''" and query = "''cats''" and max_results = 10
        and repr = plain_repr and w = world0
        and resp = "\<lparr>status_code = 200, response_text = [], json = Inr (PDict [])\<rparr>"
        and sess = "mock_session (Inr \<lparr>status_code = 200, response_text = [], json = Inr (PDict [])\<rparr>)"
        and body = "[]" and web = "[]" and ds = "[]"]
    by (simp add: mock_session_def sample_body_def spec_report_def spec_entry_def field_or_def
          py_str_def nat_digits.simps digit_char_def upt_rec)
qed

section \<open>Loading the settings\<close>

lemma key_field_Inr: "(\<exists>k. key_field env name = Inr k) \<longleftrightarrow> key_ok env name"
  by (auto simp: key_field_def key_ok_def validate_api_keys_def blank_iff split: option.splits)

lemma bool_field_Inr: "(\<exists>b. bool_field env ''debug'' False = Inr b) \<longleftrightarrow> debug_ok env"
  by (auto simp: bool_field_def debug_ok_def split: option.splits)

lemma Settings_init_Inr:
  "(\<exists>s. Settings_init env = Inr s)
     \<longleftrightarrow> key_ok env ''llm_api_key'' \<and> key_ok env ''brave_api_key'' \<and> debug_ok env"
  unfolding key_field_Inr [symmetric] bool_field_Inr [symmetric]
  by (auto simp: Settings_init_def split: sum.splits)

text \<open>
  C7, as the code has it. \<open>load_settings\<close> returns a settings object exactly when both
  required keys are present and neither empty nor all whitespace and the \<open>DEBUG\<close>
  variable, if set, is a boolean; in every other case, so whenever a required key is
  missing, empty or whitespace, it raises a \<open>ValueError\<close>.
\<close>

theorem load_settings_outcome:
  "(key_ok env ''llm_api_key'' \<and> key_ok env ''brave_api_key'' \<and> debug_ok env
      \<longrightarrow> (\<exists>s. load_settings render env = Inr s))
   \<and> (\<not> (key_ok env ''llm_api_key'' \<and> key_ok env ''brave_api_key'' \<and> debug_ok env)
      \<longrightarrow> (\<exists>m. load_settings render env = Inl (ValueError m)))"
proof (cases "Settings_init env")
  case (Inl errs)
  then have "\<not> (\<exists>s. Settings_init env = Inr s)" by simp
  then have "\<not> (key_ok env ''llm_api_key'' \<and> key_ok env ''brave_api_key'' \<and> debug_ok env)"
    unfolding Settings_init_Inr .
  moreover have "\<exists>m. load_settings render env = Inl (ValueError m)"
    using Inl by (simp add: load_settings_def Let_def)
  ultimately show ?thesis by blast
next
  case (Inr s)
  then have "\<exists>s. Settings_init env = Inr s" by blast
  then have "key_ok env ''llm_api_key'' \<and> key_ok env ''brave_api_key'' \<and> debug_ok env"
    unfolding Settings_init_Inr .
  moreover have "load_settings render env = Inr s"
    using Inr by (simp add: load_settings_def)
  ultimately show ?thesis by blast
qed

theorem load_settings_outcome_witness:
  "(key_ok good_env ''llm_api_key'' \<and> key_ok good_env ''brave_api_key'' \<and> debug_ok good_env)
   \<and> load_settings names_render good_env = Inr
        \<lparr>llm_provider = ''openai'', llm_api_key = ''test_llm_key'', llm_model = ''gpt-4o'',
         llm_base_url = ''https://api.openai.com/v1'', brave_api_key = ''test_brave_key'',
         brave_search_url = ''https://api.search.brave.com/res/v1/web/search'',
         app_env = ''development'', log_level = ''INFO'', debug = False\<rparr>
   \<and> \<not> key_ok blank_key_env ''brave_api_key''
   \<and> load_settings names_render blank_key_env = Inl (ValueError
        (''Failed to load settings: brave_api_key'' @ newline
           @ ''Make sure to set BRAVE_API_KEY in your .env file''))
   \<and> \<not> key_ok missing_key_env ''llm_api_key''
   \<and> load_settings names_render missing_key_env = Inl (ValueError
        (''Failed to load settings: llm_api_key'' @ newline
           @ ''Make sure to set LLM_API_KEY in your .env file''))"
proof -
  have good: "key_ok good_env ''llm_api_key'' \<and> key_ok good_env ''brave_api_key''
                \<and> debug_ok good_env"
    by code_simp
  have blank: "\<not> key_ok blank_key_env ''brave_api_key''"
    by code_simp
  have missing: "\<not> key_ok missing_key_env ''llm_api_key''"
    by code_simp
  have r1: "load_settings names_render good_env = Inr
        \<lparr>llm_provider = ''openai'', llm_api_key = ''test_llm_key'', llm_model = ''gpt-4o'',
         llm_base_url = ''https://api.openai.com/v1'', brave_api_key = ''test_brave_key'',
         brave_search_url = ''https://api.search.brave.com/res/v1/web/search'',
         app_env = ''development'', log_level = ''INFO'', debug = False\<rparr>"
    by code_simp
  have r2: "load_settings names_render blank_key_env = Inl (ValueError
        (''Failed to load settings: brave_api_key'' @ newline
           @ ''Make sure to set BRAVE_API_KEY in your .env file''))"
    by code_simp
  have r3: "load_settings names_render missing_key_env = Inl (ValueError
        (''Failed to load settings: llm_api_key'' @ newline
           @ ''Make sure to set LLM_API_KEY in your .env file''))"
    by code_simp
  show ?thesis
    using good blank missing r1 r2 r3
      load_settings_outcome [of good_env names_render]
      load_settings_outcome [of blank_key_env names_render]
      load_settings_outcome [of missing_key_env names_render]
    by simp
qed

text \<open>
  C7 as stated fails where both keys are set and \<open>DEBUG\<close> holds a word that is no
  boolean: the validation of that field fails and \<open>load_settings\<close> raises.
\<close>

theorem load_settings_counterexample:
  "key_ok debug_env ''llm_api_key'' \<and> key_ok debug_env ''brave_api_key''
   \<and> load_settings names_render debug_env
       = Inl (ValueError ''Failed to load settings: debug'')"
  by code_simp

section \<open>Closing the client\<close>

lemma closed_close: "session d \<in> set (closed (close d st))"
  by (simp add: close_def)

text \<open>
  C8. Once \<open>create\<close> has made the dependencies, their HTTP client is among the closed
  ones when \<open>run_research\<close> and when \<open>run_research_sync\<close> are left, whatever the agent
  did; each returns the data of the run or raises what the run raised.
\<close>

theorem client_closed_on_exit:
  assumes "BraveSearchDependencies_create render env sid st = (Inr d, st1)"
  shows "session d \<in> set (closed (snd (run_research ag render env query sid max_results st)))
       \<and> session d \<in> set (closed (snd (run_research_sync ag render env query sid max_results st)))
       \<and> fst (run_research ag render env query sid max_results st)
           = (case fst (run ag query d st1) of Inl e \<Rightarrow> Inl e | Inr result \<Rightarrow> Inr (data result))
       \<and> fst (run_research_sync ag render env query sid max_results st)
           = (case fst (run_sync ag query d st1) of Inl e \<Rightarrow> Inl e | Inr result \<Rightarrow> Inr (data result))"
proof -
  obtain r st2 where r: "run ag query d st1 = (r, st2)"
    by (cases "run ag query d st1")
  obtain r' st2' where r': "run_sync ag query d st1 = (r', st2')"
    by (cases "run_sync ag query d st1")
  have a: "snd (run_research ag render env query sid max_results st) = close d st2"
    using assms r by (simp add: run_research_def split: sum.splits)
  have b: "snd (run_research_sync ag render env query sid max_results st) = close d st2'"
    using assms r' by (simp add: run_research_sync_def split: sum.splits)
  have c: "fst (run_research ag render env query sid max_results st)
           = (case r of Inl e \<Rightarrow> Inl e | Inr result \<Rightarrow> Inr (data result))"
    using assms r by (simp add: run_research_def split: sum.splits)
  have d: "fst (run_research_sync ag render env query sid max_results st)
           = (case r' of Inl e \<Rightarrow> Inl e | Inr result \<Rightarrow> Inr (data result))"
    using assms r' by (simp add: run_research_sync_def split: sum.splits)
  show ?thesis
    unfolding a b c d by (simp add: closed_close r r')
qed

theorem client_closed_on_exit_witness:
  "BraveSearchDependencies_create names_render good_env (Some ''s1'') no_clients
     = (Inr \<lparr>BraveSearchDependencies.brave_api_key = ''test_brave_key'', session = 0,
              session_id = Some ''s1''\<rparr>, \<lparr>opened = [0], closed = []\<rparr>)
   \<and> 0 \<in> set (closed (snd (run_research failing_agent names_render good_env ''cats''
                              (Some ''s1'') 10 no_clients)))
   \<and> 0 \<in> set (closed (snd (run_research_sync failing_agent names_render good_env ''cats''
                              (Some ''s1'') 10 no_clients)))
   \<and> fst (run_research failing_agent names_render good_env ''cats'' (Some ''s1'') 10 no_clients)
       = Inl (OtherException ''Test error'')"
proof -
  have c: "BraveSearchDependencies_create names_render good_env (Some ''s1'') no_clients
     = (Inr \<lparr>BraveSearchDependencies.brave_api_key = ''test_brave_key'', session = 0,
              session_id = Some ''s1''\<rparr>, \<lparr>opened = [0], closed = []\<rparr>)"
    by code_simp
  show ?thesis
    using c client_closed_on_exit [OF c, where ag = failing_agent and query = "''cats''"
      and max_results = 10]
    by (simp add: failing_agent_def)
qed

end
